theory Spec2Isabelle
  imports Main "HOL-Library.AList"
begin

section \<open>The plan contract validator (scripts/validate_generated_plan_contract.py)\<close>

text \<open>
  The validator takes the document that \<^verbatim>\<open>json.loads\<close> produced and returns the list of
  violation messages. The embedding follows the source line by line:
  \<^item> a parsed document is a value of the datatype \<open>json\<close>; a Python \<^verbatim>\<open>dict\<close> is an
    association list in insertion order, read with \<open>map_of\<close>;
  \<^item> the \<^verbatim>\<open>errors\<close> list that \<^verbatim>\<open>_err\<close> appends to is passed explicitly and returned;
  \<^item> each \<^verbatim>\<open>for\<close> loop is a recursive function over the list it walks, its body a
    definition of its own (\<open>validate_task\<close>, \<open>validate_milestone\<close>, \<open>validate_phase\<close>);
  \<^item> calling \<^verbatim>\<open>.get\<close> on a value that is not a \<^verbatim>\<open>dict\<close> raises \<^verbatim>\<open>AttributeError\<close>;
    the exception leaves \<^verbatim>\<open>validate\<close>, so the result type is \<open>py_error + string list\<close>.

  Assumptions of the model: characters are code points below 256 (on these the
  pattern \<^verbatim>\<open>\d\<close> matches exactly the ten ASCII digits); a floating-point number is
  represented by the text Python prints for it, the only thing the validator can
  observe of it; the interpreter's configurable limit on the length of a digit string
  given to \<^verbatim>\<open>int\<close> or produced by \<^verbatim>\<open>str\<close> is not modelled (integers are unbounded).
\<close>

subsection \<open>Documents\<close>

datatype json =
    JNull
  | JBool bool
  | JInt int
  | JFloat string
  | JStr string
  | JList "json list"
  | JObj "(string \<times> json) list"

datatype py_error = AttributeError

text \<open>\<^verbatim>\<open>isinstance(x, list)\<close> and \<^verbatim>\<open>isinstance(x, dict)\<close>, on the result of a lookup.\<close>

fun as_list :: "json option \<Rightarrow> json list option" where
  "as_list (Some (JList xs)) = Some xs"
| "as_list _ = None"

fun as_dict :: "json option \<Rightarrow> (string \<times> json) list option" where
  "as_dict (Some (JObj kvs)) = Some kvs"
| "as_dict _ = None"

text \<open>\<^verbatim>\<open>d.get(key, default)\<close> and \<^verbatim>\<open>key in d\<close>.\<close>

definition dict_get :: "(string \<times> json) list \<Rightarrow> string \<Rightarrow> json \<Rightarrow> json" where
  "dict_get d key dflt = (case map_of d key of Some v \<Rightarrow> v | None \<Rightarrow> dflt)"

definition has_key :: "(string \<times> json) list \<Rightarrow> string \<Rightarrow> bool" where
  "has_key d key = (map_of d key \<noteq> None)"

subsection \<open>Python's \<^verbatim>\<open>str\<close> and \<^verbatim>\<open>repr\<close> on parsed documents\<close>

definition digit_char :: "nat \<Rightarrow> char" where
  "digit_char n = char_of (48 + n)"

fun str_nat :: "nat \<Rightarrow> string" where
  "str_nat n = (if n < 10 then [digit_char n] else str_nat (n div 10) @ [digit_char (n mod 10)])"

declare str_nat.simps [simp del]

definition str_int :: "int \<Rightarrow> string" where
  "str_int i = (if i < 0 then CHR ''-'' # str_nat (nat (- i)) else str_nat (nat i))"

definition hex_char :: "nat \<Rightarrow> char" where
  "hex_char n = (if n < 10 then char_of (48 + n) else char_of (87 + n))"

text \<open>
  Code points below 256 that \<^verbatim>\<open>repr\<close> writes as an escape: the control characters, DEL,
  the C1 controls, the no-break space and the soft hyphen.
\<close>

definition nonprintable :: "char \<Rightarrow> bool" where
  "nonprintable c = (let n = (of_char c :: nat) in n < 32 \<or> (127 \<le> n \<and> n \<le> 160) \<or> n = 173)"

definition repr_char :: "char \<Rightarrow> char \<Rightarrow> string" where
  "repr_char quote c =
     (if c = quote \<or> c = CHR 0x5C then [CHR 0x5C, c]
      else if c = CHR 0x09 then [CHR 0x5C, CHR ''t'']
      else if c = CHR 0x0A then [CHR 0x5C, CHR ''n'']
      else if c = CHR 0x0D then [CHR 0x5C, CHR ''r'']
      else if nonprintable c then
        [CHR 0x5C, CHR ''x'', hex_char ((of_char c :: nat) div 16), hex_char ((of_char c :: nat) mod 16)]
      else [c])"

definition repr_str :: "string \<Rightarrow> string" where
  "repr_str s =
     (let quote = (if CHR 0x27 \<in> set s \<and> CHR 0x22 \<notin> set s then CHR 0x22 else CHR 0x27)
      in quote # concat (map (repr_char quote) s) @ [quote])"

fun join_str :: "string \<Rightarrow> string list \<Rightarrow> string" where
  "join_str sep [] = []"
| "join_str sep [x] = x"
| "join_str sep (x # y # ys) = x @ sep @ join_str sep (y # ys)"

fun py_repr :: "json \<Rightarrow> string" where
  "py_repr JNull = ''None''"
| "py_repr (JBool b) = (if b then ''True'' else ''False'')"
| "py_repr (JInt i) = str_int i"
| "py_repr (JFloat r) = r"
| "py_repr (JStr s) = repr_str s"
| "py_repr (JList xs) = ''['' @ join_str '', '' (map py_repr xs) @ '']''"
| "py_repr (JObj kvs) =
     ''{'' @ join_str '', '' (map (\<lambda>kv. repr_str (fst kv) @ '': '' @ py_repr (snd kv)) kvs) @ ''}''"

text \<open>\<^verbatim>\<open>str(x)\<close>, which is also what an f-string field \<^verbatim>\<open>{x}\<close> prints.\<close>

fun py_str :: "json \<Rightarrow> string" where
  "py_str (JStr s) = s"
| "py_str v = py_repr v"

subsection \<open>Constants and helpers of the script\<close>

definition PHASE_MIN :: nat where "PHASE_MIN = 7"
definition WAVE_MIN :: nat where "WAVE_MIN = 5"
definition MILESTONE_EXACT :: nat where "MILESTONE_EXACT = 4"
definition TASK_EXACT :: nat where "TASK_EXACT = 15"

definition err :: "string list \<Rightarrow> string \<Rightarrow> string list" where
  "err errors message = errors @ [message]"

definition is_digit :: "char \<Rightarrow> bool" where
  "is_digit c = (c \<in> set ''0123456789'')"

definition int_of_digits :: "string \<Rightarrow> int" where
  "int_of_digits ds = foldl (\<lambda>a c. 10 * a + int (of_char c - 48)) 0 ds"

fun strip_prefix :: "string \<Rightarrow> string \<Rightarrow> string option" where
  "strip_prefix [] s = Some s"
| "strip_prefix (p # ps) [] = None"
| "strip_prefix (p # ps) (c # cs) = (if p = c then strip_prefix ps cs else None)"

text \<open>
  One attempt of \<^verbatim>\<open>re.search\<close> at the start of \<open>s\<close>: the escaped marker matches itself,
  then \<^verbatim>\<open>(\d+)\<close> takes the longest run of digits, which must not be empty.
\<close>

definition match_here :: "string \<Rightarrow> string \<Rightarrow> int option" where
  "match_here marker s =
     (case strip_prefix marker s of
        None \<Rightarrow> None
      | Some rest \<Rightarrow>
          (let ds = takeWhile is_digit rest
           in if ds = [] then None else Some (int_of_digits ds)))"

text \<open>\<^verbatim>\<open>_extract_index\<close>: the leftmost match wins.\<close>

fun extract_index :: "string \<Rightarrow> string \<Rightarrow> int option" where
  "extract_index [] marker = None"
| "extract_index (c # cs) marker =
     (case match_here marker (c # cs) of
        Some k \<Rightarrow> Some k
      | None \<Rightarrow> extract_index cs marker)"

subsection \<open>\<^verbatim>\<open>validate\<close>\<close>

text \<open>
  Each block of \<^verbatim>\<open>validate\<close> that only appends messages is a definition that takes the
  error list and returns it extended; the two sequence checks also take and return the
  running index.
\<close>

text \<open>Lines 90-96: the strict-increase check on the task marker.\<close>

definition check_task_sequence ::
  "json \<Rightarrow> json \<Rightarrow> string \<Rightarrow> int \<times> string list \<Rightarrow> int \<times> string list" where
  "check_task_sequence pid mid tid st =
     (case extract_index tid ''T'' of
        None \<Rightarrow>
          (fst st, err (snd st) (py_str pid @ '': '' @ py_str mid @ '': task missing sequence marker: '' @ tid))
      | Some t_index \<Rightarrow>
          if t_index \<le> fst st
          then (fst st, err (snd st) (py_str pid @ '': '' @ py_str mid @ '': task sequence is not strict''))
          else (t_index, snd st))"

text \<open>Lines 98-99.\<close>

definition check_done_criteria ::
  "json \<Rightarrow> json \<Rightarrow> string \<Rightarrow> (string \<times> json) list \<Rightarrow> string list \<Rightarrow> string list" where
  "check_done_criteria pid mid tid t errors =
     (if \<not> has_key t ''done_criteria''
      then err errors (py_str pid @ '': '' @ py_str mid @ '': '' @ tid @ '': missing done_criteria'')
      else errors)"

text \<open>The body of the task loop, lines 89-99.\<close>

definition validate_task ::
  "json \<Rightarrow> json \<Rightarrow> int \<times> string list \<Rightarrow> json \<Rightarrow> py_error + (int \<times> string list)" where
  "validate_task pid mid st task =
     (case task of
        JObj t \<Rightarrow>
          (let tid = py_str (dict_get t ''task_id'' (JStr ''''));
               st1 = check_task_sequence pid mid tid st
           in Inr (fst st1, check_done_criteria pid mid tid t (snd st1)))
      | _ \<Rightarrow> Inl AttributeError)"

fun validate_tasks ::
  "json \<Rightarrow> json \<Rightarrow> int \<times> string list \<Rightarrow> json list \<Rightarrow> py_error + (int \<times> string list)" where
  "validate_tasks pid mid st [] = Inr st"
| "validate_tasks pid mid st (task # tasks) =
     (case validate_task pid mid st task of
        Inl e \<Rightarrow> Inl e
      | Inr st' \<Rightarrow> validate_tasks pid mid st' tasks)"

text \<open>Lines 68-74: the strict-increase check on the milestone marker.\<close>

definition check_milestone_sequence ::
  "json \<Rightarrow> json \<Rightarrow> int \<times> string list \<Rightarrow> int \<times> string list" where
  "check_milestone_sequence pid mid st =
     (case extract_index (py_str mid) ''M'' of
        None \<Rightarrow>
          (fst st, err (snd st) (py_str pid @ '': '' @ py_str mid @ '': missing milestone sequence marker''))
      | Some m_index \<Rightarrow>
          if m_index \<le> fst st
          then (fst st, err (snd st) (py_str pid @ '': '' @ py_str mid @ '': milestone sequence is not strict''))
          else (m_index, snd st))"

text \<open>Lines 81-85.\<close>

definition check_task_count :: "json \<Rightarrow> json \<Rightarrow> json list \<Rightarrow> string list \<Rightarrow> string list" where
  "check_task_count pid mid tasks errors =
     (if length tasks \<noteq> TASK_EXACT
      then err errors
             (py_str pid @ '': '' @ py_str mid @ '': task_count='' @ str_nat (length tasks)
                @ '' != '' @ str_nat TASK_EXACT)
      else errors)"

text \<open>Lines 101-104.\<close>

definition check_milestone_gates ::
  "json \<Rightarrow> json \<Rightarrow> (string \<times> json) list \<Rightarrow> string list \<Rightarrow> string list" where
  "check_milestone_gates pid mid m errors =
     (let errors1 =
            (if \<not> has_key m ''unit_gate''
             then err errors (py_str pid @ '': '' @ py_str mid @ '': missing unit_gate'')
             else errors)
      in if \<not> has_key m ''integration_gate''
         then err errors1 (py_str pid @ '': '' @ py_str mid @ '': missing integration_gate'')
         else errors1)"

text \<open>
  The body of the milestone loop, lines 66-104. The \<^verbatim>\<open>continue\<close> of line 79 ends the
  body right after the missing-tasks message; the task loop starts from index 0.
\<close>

definition validate_milestone ::
  "json \<Rightarrow> int \<times> string list \<Rightarrow> json \<Rightarrow> py_error + (int \<times> string list)" where
  "validate_milestone pid st milestone =
     (case milestone of
        JObj m \<Rightarrow>
          (let mid = dict_get m ''milestone_id'' (JStr (py_str pid @ '':milestone''));
               st1 = check_milestone_sequence pid mid st
           in case as_list (map_of m ''tasks'') of
                None \<Rightarrow> Inr (fst st1, err (snd st1) (py_str pid @ '': '' @ py_str mid @ '': missing tasks[]''))
              | Some tasks \<Rightarrow>
                  (case validate_tasks pid mid (0, check_task_count pid mid tasks (snd st1)) tasks of
                     Inl e \<Rightarrow> Inl e
                   | Inr st3 \<Rightarrow> Inr (fst st1, check_milestone_gates pid mid m (snd st3))))
      | _ \<Rightarrow> Inl AttributeError)"

fun validate_milestones ::
  "json \<Rightarrow> int \<times> string list \<Rightarrow> json list \<Rightarrow> py_error + (int \<times> string list)" where
  "validate_milestones pid st [] = Inr st"
| "validate_milestones pid st (milestone # milestones) =
     (case validate_milestone pid st milestone of
        Inl e \<Rightarrow> Inl e
      | Inr st' \<Rightarrow> validate_milestones pid st' milestones)"

text \<open>Lines 47-51.\<close>

definition check_waves :: "json \<Rightarrow> (string \<times> json) list \<Rightarrow> string list \<Rightarrow> string list" where
  "check_waves pid p errors =
     (case as_list (map_of p ''waves'') of
        None \<Rightarrow> err errors (py_str pid @ '': missing waves[]'')
      | Some waves \<Rightarrow>
          if length waves < WAVE_MIN
          then err errors (py_str pid @ '': wave_count='' @ str_nat (length waves) @ '' < '' @ str_nat WAVE_MIN)
          else errors)"

text \<open>Lines 58-62.\<close>

definition check_milestone_count :: "json \<Rightarrow> json list \<Rightarrow> string list \<Rightarrow> string list" where
  "check_milestone_count pid milestones errors =
     (if length milestones \<noteq> MILESTONE_EXACT
      then err errors
             (py_str pid @ '': milestone_count='' @ str_nat (length milestones)
                @ '' != '' @ str_nat MILESTONE_EXACT)
      else errors)"

text \<open>Lines 106-118; the \<^verbatim>\<open>continue\<close> of line 109 ends the phase.\<close>

definition check_phase_gates ::
  "json \<Rightarrow> nat \<Rightarrow> (string \<times> json) list \<Rightarrow> string list \<Rightarrow> string list" where
  "check_phase_gates pid phase_idx p errors =
     (case as_dict (Some (dict_get p ''phase_gates'' (JObj []))) of
        None \<Rightarrow> err errors (py_str pid @ '': phase_gates must be an object'')
      | Some phase_gates \<Rightarrow>
          (let errors1 =
                 (if \<not> has_key phase_gates ''phase_end_e2e''
                  then err errors (py_str pid @ '': missing phase_gates.phase_end_e2e'')
                  else errors)
           in if phase_idx > 1 then
                (let errors2 =
                       (if \<not> has_key phase_gates ''rolling_inter_phase_integration''
                        then err errors1 (py_str pid @ '': missing rolling_inter_phase_integration'')
                        else errors1)
                 in if \<not> has_key phase_gates ''rolling_cumulative_e2e''
                    then err errors2 (py_str pid @ '': missing rolling_cumulative_e2e'')
                    else errors2)
              else errors1))"

text \<open>
  The body of the phase loop, lines 45-118. The \<^verbatim>\<open>continue\<close> of line 56 ends the phase
  right after the missing-milestones message, before the phase gates are looked at; the
  milestone loop starts from index 0.
\<close>

definition validate_phase :: "string list \<Rightarrow> nat \<Rightarrow> json \<Rightarrow> py_error + string list" where
  "validate_phase errors phase_idx phase =
     (case phase of
        JObj p \<Rightarrow>
          (let pid = dict_get p ''phase_id'' (JStr (''phase['' @ str_nat phase_idx @ '']''));
               errors1 = check_waves pid p errors
           in case as_list (map_of p ''milestones'') of
                None \<Rightarrow> Inr (err errors1 (py_str pid @ '': missing milestones[]''))
              | Some milestones \<Rightarrow>
                  (case validate_milestones pid (0, check_milestone_count pid milestones errors1) milestones of
                     Inl e \<Rightarrow> Inl e
                   | Inr st3 \<Rightarrow> Inr (check_phase_gates pid phase_idx p (snd st3))))
      | _ \<Rightarrow> Inl AttributeError)"

text \<open>The phase loop, \<^verbatim>\<open>enumerate(phases, start=1)\<close>: \<open>phase_idx\<close> is the index of the head.\<close>

fun validate_phases :: "string list \<Rightarrow> nat \<Rightarrow> json list \<Rightarrow> py_error + string list" where
  "validate_phases errors phase_idx [] = Inr errors"
| "validate_phases errors phase_idx (phase # phases) =
     (case validate_phase errors phase_idx phase of
        Inl e \<Rightarrow> Inl e
      | Inr errors' \<Rightarrow> validate_phases errors' (Suc phase_idx) phases)"

text \<open>Lines 41-42.\<close>

definition check_phase_count :: "json list \<Rightarrow> string list \<Rightarrow> string list" where
  "check_phase_count phases errors =
     (if length phases < PHASE_MIN
      then err errors (''phase_count='' @ str_nat (length phases) @ '' < '' @ str_nat PHASE_MIN)
      else errors)"

text \<open>Lines 33-120; the \<^verbatim>\<open>return\<close> of line 39 ends the validation.\<close>

definition validate :: "json \<Rightarrow> py_error + string list" where
  "validate plan =
     (case plan of
        JObj d \<Rightarrow>
          (case as_list (map_of d ''phases'') of
             None \<Rightarrow> Inr (err [] ''Missing required array: phases'')
           | Some phases \<Rightarrow> validate_phases (check_phase_count phases []) 1 phases)
      | _ \<Rightarrow> Inl AttributeError)"

section \<open>The contract, as the specification words it\<close>

text \<open>
  The definitions of this section follow the specification (its sections 3, 4.1 and 8),
  not the code; the theorems compare them with \<open>validate\<close>.
\<close>

text \<open>
  The sequence marker of a milestone or of a task: the first \<^verbatim>\<open>M<digits>\<close> in its
  \<^verbatim>\<open>milestone_id\<close>, the first \<^verbatim>\<open>T<digits>\<close> in its \<^verbatim>\<open>task_id\<close>; no value when the
  field is absent or holds no such substring.
\<close>

definition milestone_marker :: "json \<Rightarrow> int option" where
  "milestone_marker milestone =
     (case milestone of
        JObj m \<Rightarrow>
          (case map_of m ''milestone_id'' of
             None \<Rightarrow> None
           | Some v \<Rightarrow> extract_index (py_str v) ''M'')
      | _ \<Rightarrow> None)"

definition task_marker :: "json \<Rightarrow> int option" where
  "task_marker task =
     (case task of
        JObj t \<Rightarrow>
          (case map_of t ''task_id'' of
             None \<Rightarrow> None
           | Some v \<Rightarrow> extract_index (py_str v) ''T'')
      | _ \<Rightarrow> None)"



text \<open>
  The shape of a document. The parameters are the conditions on the number of phases
  and on the number of waves of a phase, and the reading of "strictly increasing".
\<close>

definition task_conforms :: "json \<Rightarrow> bool" where
  "task_conforms task = (case task of JObj t \<Rightarrow> has_key t ''done_criteria'' | _ \<Rightarrow> False)"













section \<open>Example documents\<close>

definition example_task :: "string \<Rightarrow> json" where
  "example_task tid = JObj [(''task_id'', JStr tid), (''done_criteria'', JStr ''tests pass'')]"

definition example_tasks :: "json list" where
  "example_tasks =
     map example_task
       [''T1'', ''T2'', ''T3'', ''T4'', ''T5'', ''T6'', ''T7'', ''T8'', ''T9'', ''T10'',
        ''T11'', ''T12'', ''T13'', ''T14'', ''T15'']"

definition example_milestone :: "string \<Rightarrow> json" where
  "example_milestone mid =
     JObj [(''milestone_id'', JStr mid), (''tasks'', JList example_tasks),
           (''unit_gate'', JStr ''unit''), (''integration_gate'', JStr ''integration'')]"






section \<open>Auxiliary definitions\<close>

text \<open>Putting a list of earlier messages in front of a result.\<close>

definition prepend_st ::
  "string list \<Rightarrow> py_error + (int \<times> string list) \<Rightarrow> py_error + (int \<times> string list)" where
  "prepend_st es r = (case r of Inl e \<Rightarrow> Inl e | Inr st \<Rightarrow> Inr (fst st, es @ snd st))"

definition prepend_errs :: "string list \<Rightarrow> py_error + string list \<Rightarrow> py_error + string list" where
  "prepend_errs es r = (case r of Inl e \<Rightarrow> Inl e | Inr new \<Rightarrow> Inr (es @ new))"


section \<open>Properties\<close>

subsection \<open>The error list only grows\<close>

text \<open>
  What a check appends does not depend on the messages collected before it: running it
  on the list \<open>es\<close> gives \<open>es\<close> followed by what it appends to the empty list.
\<close>

lemma check_task_sequence_acc:
  "check_task_sequence pid mid tid (p, es) =
     (fst (check_task_sequence pid mid tid (p, [])), es @ snd (check_task_sequence pid mid tid (p, [])))"
  by (simp add: check_task_sequence_def err_def split: option.splits)

lemma check_done_criteria_acc:
  "check_done_criteria pid mid tid t es = es @ check_done_criteria pid mid tid t []"
  by (simp add: check_done_criteria_def err_def)

lemma check_milestone_sequence_acc:
  "check_milestone_sequence pid mid (p, es) =
     (fst (check_milestone_sequence pid mid (p, [])), es @ snd (check_milestone_sequence pid mid (p, [])))"
  by (simp add: check_milestone_sequence_def err_def split: option.splits)

lemma check_task_count_acc:
  "check_task_count pid mid tasks es = es @ check_task_count pid mid tasks []"
  by (simp add: check_task_count_def err_def)

lemma check_milestone_gates_acc:
  "check_milestone_gates pid mid m es = es @ check_milestone_gates pid mid m []"
  by (simp add: check_milestone_gates_def err_def)

lemma check_waves_acc: "check_waves pid p es = es @ check_waves pid p []"
  by (simp add: check_waves_def err_def split: option.splits)

lemma check_milestone_count_acc:
  "check_milestone_count pid ms es = es @ check_milestone_count pid ms []"
  by (simp add: check_milestone_count_def err_def)

lemma check_phase_gates_acc:
  "check_phase_gates pid i p es = es @ check_phase_gates pid i p []"
  by (simp add: check_phase_gates_def err_def Let_def split: option.splits)

lemma prepend_st_simps [simp]:
  "prepend_st es (Inl e) = Inl e"
  "prepend_st es (Inr (p, new)) = Inr (p, es @ new)"
  by (simp_all add: prepend_st_def)

lemma prepend_errs_simps [simp]:
  "prepend_errs es (Inl e) = Inl e"
  "prepend_errs es (Inr new) = Inr (es @ new)"
  by (simp_all add: prepend_errs_def)

lemma prepend_st_prepend_st: "prepend_st es (prepend_st fs r) = prepend_st (es @ fs) r"
  by (cases r) (simp_all add: prepend_st_def)

lemma prepend_errs_prepend_errs: "prepend_errs es (prepend_errs fs r) = prepend_errs (es @ fs) r"
  by (cases r) (simp_all add: prepend_errs_def)

lemma prepend_st_Nil [simp]: "prepend_st [] r = r"
  by (cases r) (simp_all add: prepend_st_def)

lemma prepend_errs_Nil [simp]: "prepend_errs [] r = r"
  by (cases r) (simp_all add: prepend_errs_def)

lemma validate_task_acc:
  "validate_task pid mid (p, es) task = prepend_st es (validate_task pid mid (p, []) task)"
proof (cases task)
  case (JObj t)
  define tid where "tid = py_str (dict_get t ''task_id'' (JStr ''''))"
  obtain q new where q: "check_task_sequence pid mid tid (p, []) = (q, new)"
    by (cases "check_task_sequence pid mid tid (p, [])")
  have q': "check_task_sequence pid mid tid (p, es) = (q, es @ new)"
    by (simp add: check_task_sequence_acc [of pid mid tid p es] q)
  show ?thesis
    unfolding JObj validate_task_def Let_def json.case tid_def [symmetric] q q'
    by (simp add: check_done_criteria_acc [of pid mid tid t "es @ new"]
          check_done_criteria_acc [of pid mid tid t new])
qed (simp_all add: validate_task_def)

lemma validate_tasks_acc:
  "validate_tasks pid mid (p, es) tasks = prepend_st es (validate_tasks pid mid (p, []) tasks)"
proof (induction tasks arbitrary: p es)
  case Nil
  show ?case by simp
next
  case (Cons task tasks)
  show ?case
  proof (cases "validate_task pid mid (p, []) task")
    case (Inl e)
    then show ?thesis
      by (simp add: validate_task_acc [of pid mid p es])
  next
    case (Inr st)
    obtain q new where st: "st = (q, new)" by (cases st)
    have "validate_tasks pid mid (p, es) (task # tasks) = validate_tasks pid mid (q, es @ new) tasks"
      by (simp add: validate_task_acc [of pid mid p es] Inr st)
    also have "\<dots> = prepend_st (es @ new) (validate_tasks pid mid (q, []) tasks)"
      by (rule Cons.IH)
    also have "\<dots> = prepend_st es (validate_tasks pid mid (q, new) tasks)"
      by (simp add: Cons.IH [of q new] prepend_st_prepend_st)
    finally show ?thesis
      by (simp add: Inr st)
  qed
qed

lemma validate_milestone_acc:
  "validate_milestone pid (p, es) milestone = prepend_st es (validate_milestone pid (p, []) milestone)"
proof (cases milestone)
  case (JObj m)
  define mid where "mid = dict_get m ''milestone_id'' (JStr (py_str pid @ '':milestone''))"
  obtain q new where q: "check_milestone_sequence pid mid (p, []) = (q, new)"
    by (cases "check_milestone_sequence pid mid (p, [])")
  have q': "check_milestone_sequence pid mid (p, es) = (q, es @ new)"
    by (simp add: check_milestone_sequence_acc [of pid mid p es] q)
  show ?thesis
  proof (cases "as_list (map_of m ''tasks'')")
    case None
    show ?thesis
      unfolding JObj validate_milestone_def Let_def json.case mid_def [symmetric] q q' None
      by (simp add: err_def)
  next
    case (Some tasks)
    define cnt where "cnt = check_task_count pid mid tasks []"
    have c: "check_task_count pid mid tasks (es @ new) = es @ new @ cnt"
      "check_task_count pid mid tasks new = new @ cnt"
      by (simp_all add: cnt_def check_task_count_acc [of pid mid tasks "es @ new"]
            check_task_count_acc [of pid mid tasks new])
    have t: "validate_tasks pid mid (0, es @ new @ cnt) tasks
               = prepend_st es (validate_tasks pid mid (0, new @ cnt) tasks)"
      by (simp add: validate_tasks_acc [of pid mid 0 "es @ new @ cnt"]
            validate_tasks_acc [of pid mid 0 "new @ cnt"] prepend_st_prepend_st)
    show ?thesis
    proof (cases "validate_tasks pid mid (0, new @ cnt) tasks")
      case (Inl e)
      show ?thesis
        unfolding JObj validate_milestone_def Let_def json.case mid_def [symmetric] q q' Some
          option.case fst_conv snd_conv c t Inl
        by simp
    next
      case (Inr st3)
      obtain r fs where st3: "st3 = (r, fs)" by (cases st3)
      show ?thesis
        unfolding JObj validate_milestone_def Let_def json.case mid_def [symmetric] q q' Some
          option.case fst_conv snd_conv c t Inr st3
        by (simp add: check_milestone_gates_acc [of pid mid m "es @ fs"]
              check_milestone_gates_acc [of pid mid m fs])
    qed
  qed
qed (simp_all add: validate_milestone_def)

lemma validate_milestones_acc:
  "validate_milestones pid (p, es) ms = prepend_st es (validate_milestones pid (p, []) ms)"
proof (induction ms arbitrary: p es)
  case Nil
  show ?case by simp
next
  case (Cons m ms)
  show ?case
  proof (cases "validate_milestone pid (p, []) m")
    case (Inl e)
    then show ?thesis
      by (simp add: validate_milestone_acc [of pid p es])
  next
    case (Inr st)
    obtain q new where st: "st = (q, new)" by (cases st)
    have "validate_milestones pid (p, es) (m # ms) = validate_milestones pid (q, es @ new) ms"
      by (simp add: validate_milestone_acc [of pid p es] Inr st)
    also have "\<dots> = prepend_st (es @ new) (validate_milestones pid (q, []) ms)"
      by (rule Cons.IH)
    also have "\<dots> = prepend_st es (validate_milestones pid (q, new) ms)"
      by (simp add: Cons.IH [of q new] prepend_st_prepend_st)
    finally show ?thesis
      by (simp add: Inr st)
  qed
qed

lemma validate_phase_acc:
  "validate_phase es i phase = prepend_errs es (validate_phase [] i phase)"
proof (cases phase)
  case (JObj p)
  define pid where "pid = dict_get p ''phase_id'' (JStr (''phase['' @ str_nat i @ '']''))"
  define w where "w = check_waves pid p []"
  have w: "check_waves pid p es = es @ w"
    by (simp add: w_def check_waves_acc [of pid p es])
  show ?thesis
  proof (cases "as_list (map_of p ''milestones'')")
    case None
    show ?thesis
      unfolding JObj validate_phase_def Let_def json.case pid_def [symmetric] w w_def [symmetric] None
      by (simp add: err_def)
  next
    case (Some ms)
    define cnt where "cnt = check_milestone_count pid ms []"
    have c: "check_milestone_count pid ms (es @ w) = es @ w @ cnt"
      "check_milestone_count pid ms w = w @ cnt"
      by (simp_all add: cnt_def check_milestone_count_acc [of pid ms "es @ w"]
            check_milestone_count_acc [of pid ms w])
    have t: "validate_milestones pid (0, es @ w @ cnt) ms
               = prepend_st es (validate_milestones pid (0, w @ cnt) ms)"
      by (simp add: validate_milestones_acc [of pid 0 "es @ w @ cnt"]
            validate_milestones_acc [of pid 0 "w @ cnt"] prepend_st_prepend_st)
    show ?thesis
    proof (cases "validate_milestones pid (0, w @ cnt) ms")
      case (Inl e)
      show ?thesis
        unfolding JObj validate_phase_def Let_def json.case pid_def [symmetric] w w_def [symmetric]
          Some option.case c t Inl
        by simp
    next
      case (Inr st3)
      obtain r fs where st3: "st3 = (r, fs)" by (cases st3)
      show ?thesis
        unfolding JObj validate_phase_def Let_def json.case pid_def [symmetric] w w_def [symmetric]
          Some option.case c t Inr st3
        by (simp add: check_phase_gates_acc [of pid i p "es @ fs"]
              check_phase_gates_acc [of pid i p fs])
    qed
  qed
qed (simp_all add: validate_phase_def)

lemma validate_phases_acc:
  "validate_phases es i phases = prepend_errs es (validate_phases [] i phases)"
proof (induction phases arbitrary: i es)
  case Nil
  show ?case by simp
next
  case (Cons ph phs)
  show ?case
  proof (cases "validate_phase [] i ph")
    case (Inl e)
    then show ?thesis
      by (simp add: validate_phase_acc [of es i ph])
  next
    case (Inr new)
    have "validate_phases es i (ph # phs) = validate_phases (es @ new) (Suc i) phs"
      by (simp add: validate_phase_acc [of es i ph] Inr)
    also have "\<dots> = prepend_errs (es @ new) (validate_phases [] (Suc i) phs)"
      by (rule Cons.IH)
    also have "\<dots> = prepend_errs es (validate_phases new (Suc i) phs)"
      by (simp add: Cons.IH [of new "Suc i"] prepend_errs_prepend_errs)
    finally show ?thesis
      by (simp add: Inr)
  qed
qed

subsection \<open>Documents without violations\<close>







subsection \<open>What each loop body appends\<close>


lemma validate_milestone_emitted:
  "validate_milestone pid (p, es) (JObj m) =
     (let mid = dict_get m ''milestone_id'' (JStr (py_str pid @ '':milestone''));
          st1 = check_milestone_sequence pid mid (p, [])
      in case as_list (map_of m ''tasks'') of
           None \<Rightarrow> Inr (fst st1, es @ snd st1 @ [py_str pid @ '': '' @ py_str mid @ '': missing tasks[]''])
         | Some tasks \<Rightarrow>
             (case validate_tasks pid mid (0, []) tasks of
                Inl e \<Rightarrow> Inl e
              | Inr st3 \<Rightarrow>
                  Inr (fst st1,
                       es @ snd st1 @ check_task_count pid mid tasks [] @ snd st3
                         @ check_milestone_gates pid mid m [])))"
proof -
  define mid where "mid = dict_get m ''milestone_id'' (JStr (py_str pid @ '':milestone''))"
  obtain q new where q: "check_milestone_sequence pid mid (p, []) = (q, new)"
    by (cases "check_milestone_sequence pid mid (p, [])")
  have q': "check_milestone_sequence pid mid (p, es) = (q, es @ new)"
    by (simp add: check_milestone_sequence_acc [of pid mid p es] q)
  show ?thesis
  proof (cases "as_list (map_of m ''tasks'')")
    case None
    show ?thesis
      unfolding validate_milestone_def Let_def json.case mid_def [symmetric] q q' None
      by (simp add: err_def)
  next
    case (Some tasks)
    define cnt where "cnt = check_task_count pid mid tasks []"
    have c: "check_task_count pid mid tasks (es @ new) = es @ new @ cnt"
      by (simp add: cnt_def check_task_count_acc [of pid mid tasks "es @ new"])
    have t: "validate_tasks pid mid (0, es @ new @ cnt) tasks
               = prepend_st (es @ new @ cnt) (validate_tasks pid mid (0, []) tasks)"
      by (rule validate_tasks_acc)
    show ?thesis
    proof (cases "validate_tasks pid mid (0, []) tasks")
      case (Inl e)
      show ?thesis
        unfolding validate_milestone_def Let_def json.case mid_def [symmetric] q q' Some
          option.case fst_conv snd_conv c t cnt_def [symmetric] Inl
        by simp
    next
      case (Inr st3)
      obtain r fs where st3: "st3 = (r, fs)" by (cases st3)
      show ?thesis
        unfolding validate_milestone_def Let_def json.case mid_def [symmetric] q q' Some
          option.case fst_conv snd_conv c t cnt_def [symmetric] Inr st3
        by (simp add: check_milestone_gates_acc [of pid mid m "es @ new @ cnt @ fs"])
    qed
  qed
qed

lemma validate_phase_emitted:
  "validate_phase es i (JObj p) =
     (let pid = dict_get p ''phase_id'' (JStr (''phase['' @ str_nat i @ '']''))
      in case as_list (map_of p ''milestones'') of
           None \<Rightarrow> Inr (es @ check_waves pid p [] @ [py_str pid @ '': missing milestones[]''])
         | Some milestones \<Rightarrow>
             (case validate_milestones pid (0, []) milestones of
                Inl e \<Rightarrow> Inl e
              | Inr st3 \<Rightarrow>
                  Inr (es @ check_waves pid p [] @ check_milestone_count pid milestones []
                         @ snd st3 @ check_phase_gates pid i p [])))"
proof -
  define pid where "pid = dict_get p ''phase_id'' (JStr (''phase['' @ str_nat i @ '']''))"
  define w where "w = check_waves pid p []"
  have w: "check_waves pid p es = es @ w"
    by (simp add: w_def check_waves_acc [of pid p es])
  show ?thesis
  proof (cases "as_list (map_of p ''milestones'')")
    case None
    show ?thesis
      unfolding validate_phase_def Let_def json.case pid_def [symmetric] w w_def [symmetric] None
      by (simp add: err_def)
  next
    case (Some ms)
    define cnt where "cnt = check_milestone_count pid ms []"
    have c: "check_milestone_count pid ms (es @ w) = es @ w @ cnt"
      by (simp add: cnt_def check_milestone_count_acc [of pid ms "es @ w"])
    have t: "validate_milestones pid (0, es @ w @ cnt) ms
               = prepend_st (es @ w @ cnt) (validate_milestones pid (0, []) ms)"
      by (rule validate_milestones_acc)
    show ?thesis
    proof (cases "validate_milestones pid (0, []) ms")
      case (Inl e)
      show ?thesis
        unfolding validate_phase_def Let_def json.case pid_def [symmetric] w w_def [symmetric]
          Some option.case c t cnt_def [symmetric] Inl
        by simp
    next
      case (Inr st3)
      obtain r fs where st3: "st3 = (r, fs)" by (cases st3)
      show ?thesis
        unfolding validate_phase_def Let_def json.case pid_def [symmetric] w w_def [symmetric]
          Some option.case c t cnt_def [symmetric] Inr st3
        by (simp add: check_phase_gates_acc [of pid i p "es @ w @ cnt @ fs"])
    qed
  qed
qed









subsection \<open>The empty result and the contract\<close>








subsection \<open>The example documents\<close>


lemma example_milestone_markers:
  "map (\<lambda>mid. extract_index mid ''M'') [''M0'', ''M1'', ''M2'', ''M3'', ''M4'', ''P-M1:milestone'']
   = [Some 0, Some 1, Some 2, Some 3, Some 4, Some 1]"
  by code_simp

lemma task_marker_example [simp]: "task_marker (example_task tid) = extract_index tid ''T''"
  by (simp add: task_marker_def example_task_def)

lemma task_conforms_example [simp]: "task_conforms (example_task tid)"
  by (simp add: task_conforms_def example_task_def has_key_def)






lemma milestone_marker_example [simp]:
  "milestone_marker (example_milestone mid) = extract_index mid ''M''"
  by (simp add: milestone_marker_def example_milestone_def)








lemma marker_values [simp]:
  "extract_index ''M0'' ''M'' = Some 0" "extract_index ''M1'' ''M'' = Some 1"
  "extract_index ''M2'' ''M'' = Some 2" "extract_index ''M3'' ''M'' = Some 3"
  "extract_index ''M4'' ''M'' = Some 4" "extract_index ''P-M1:milestone'' ''M'' = Some 1"
  using example_milestone_markers by simp_all










lemma str_nat_values:
  "str_nat 0 = ''0''" "str_nat 1 = ''1''" "str_nat 2 = ''2''" "str_nat 3 = ''3''"
  "str_nat 4 = ''4''" "str_nat 5 = ''5''" "str_nat 6 = ''6''" "str_nat 7 = ''7''"
  "str_nat 15 = ''15''"
  by code_simp+

subsection \<open>From the contract to the empty result\<close>









subsection \<open>Marker search, loops and phase gates\<close>

lemma strip_prefix_iff: "strip_prefix marker s = Some rest \<longleftrightarrow> s = marker @ rest"
  by (induction marker s rule: strip_prefix.induct) auto

lemma strip_prefix_append [simp]: "strip_prefix marker (marker @ rest) = Some rest"
  by (simp add: strip_prefix_iff)

lemma strip_prefix_self [simp]: "strip_prefix marker marker = Some []"
  by (simp add: strip_prefix_iff)



lemma validate_milestone_sequence_first:
  assumes "validate_milestone pid (prev, errors) (JObj m) = Inr (prev', errors')"
  shows "prev' = fst (check_milestone_sequence pid
                       (dict_get m ''milestone_id'' (JStr (py_str pid @ '':milestone''))) (prev, []))
         \<and> (\<exists>rest. errors' = errors
               @ snd (check_milestone_sequence pid
                       (dict_get m ''milestone_id'' (JStr (py_str pid @ '':milestone''))) (prev, []))
               @ rest)"
  using assms unfolding validate_milestone_emitted Let_def
  by (auto split: option.splits sum.splits)



lemma validate_phases_prefix:
  "validate_phases es k phases = Inr errs \<Longrightarrow> set es \<subseteq> set errs"
  using validate_phases_acc [of es k phases]
  by (cases "validate_phases [] k phases") auto

lemma validate_phases_nth:
  "validate_phases es k phases = Inr errs \<Longrightarrow> i < length phases \<Longrightarrow>
   \<exists>new. validate_phase [] (k + i) (phases ! i) = Inr new \<and> set new \<subseteq> set errs"
proof (induction phases arbitrary: es k i)
  case Nil
  then show ?case by simp
next
  case (Cons ph phs)
  from Cons.prems(1) obtain es1 where
    one: "validate_phase es k ph = Inr es1" and rest: "validate_phases es1 (Suc k) phs = Inr errs"
    by (auto split: sum.splits)
  from one obtain new0 where new0: "validate_phase [] k ph = Inr new0" "es1 = es @ new0"
    using validate_phase_acc [of es k ph] by (cases "validate_phase [] k ph") auto
  show ?case
  proof (cases i)
    case 0
    have "set new0 \<subseteq> set errs"
      using validate_phases_prefix [OF rest] new0(2) by auto
    with new0(1) show ?thesis by (simp add: 0)
  next
    case (Suc j)
    with Cons.prems(2) have "j < length phs" by simp
    from Cons.IH [OF rest this] show ?thesis by (simp add: Suc)
  qed
qed

lemma validate_phase_ends_with_gates:
  assumes "validate_phase [] k (JObj p) = Inr new" and "as_list (map_of p ''milestones'') = Some ms"
  shows "set (check_phase_gates (dict_get p ''phase_id'' (JStr (''phase['' @ str_nat k @ '']''))) k p [])
           \<subseteq> set new"
  using assms unfolding validate_phase_emitted Let_def
  by (auto split: sum.splits)

lemma check_phase_gates_rolling:
  assumes "1 < k" and "as_dict (Some (dict_get p ''phase_gates'' (JObj []))) = Some gates"
  shows "\<not> has_key gates ''rolling_inter_phase_integration'' \<Longrightarrow>
           (py_str pid @ '': missing rolling_inter_phase_integration'') \<in> set (check_phase_gates pid k p [])"
    and "\<not> has_key gates ''rolling_cumulative_e2e'' \<Longrightarrow>
           (py_str pid @ '': missing rolling_cumulative_e2e'') \<in> set (check_phase_gates pid k p [])"
  using assms by (simp_all add: check_phase_gates_def Let_def err_def)

section \<open>The claims\<close>




text \<open>
  C2. The claim: \<^verbatim>\<open>validate\<close> never raises; a phases, milestones or tasks element that is
  not a mapping is reported as a violation string. The code calls \<^verbatim>\<open>.get\<close> on each
  element without looking at its type (lines 45, 66 and 89), so on the documents
  \<^verbatim>\<open>{"phases": [1]}\<close>,
  \<^verbatim>\<open>{"phases": [{"milestones": ["M1"]}]}\<close> and
  \<^verbatim>\<open>{"phases": [{"milestones": [{"milestone_id": "M1", "tasks": [null]}]}]}\<close>
  it raises \<^verbatim>\<open>AttributeError\<close> and returns no list at all.
\<close>

theorem validate_raises_on_non_mapping_element:
  "validate (JObj [(''phases'', JList [JInt 1])]) = Inl AttributeError
   \<and> validate (JObj [(''phases'', JList [JObj [(''milestones'', JList [JStr ''M1''])]])])
       = Inl AttributeError
   \<and> validate (JObj [(''phases'', JList [JObj [(''milestones'',
         JList [JObj [(''milestone_id'', JStr ''M1''), (''tasks'', JList [JNull])]])]])])
       = Inl AttributeError"
  by code_simp




text \<open>
  C4. When the \<^verbatim>\<open>phases\<close> field of the plan is absent or is not a list, the result is
  exactly the one message of line 38, and nothing else is validated.
\<close>

theorem validate_missing_phases:
  "as_list (map_of d ''phases'') = None \<Longrightarrow>
   validate (JObj d) = Inr [''Missing required array: phases'']"
  by (simp add: validate_def err_def)

theorem validate_missing_phases_witness:
  "as_list (map_of [(''phases'', JStr ''none'')] ''phases'') = None
   \<and> validate (JObj [(''phases'', JStr ''none'')]) = Inr [''Missing required array: phases'']"
proof -
  have h: "as_list (map_of [(''phases'', JStr ''none'')] ''phases'') = None" by simp
  show ?thesis using h validate_missing_phases [OF h] by simp
qed

text \<open>
  C5. The running milestone index of a phase moves only when a marker is found and is
  greater than the running index; a missing marker or a marker that is not greater
  leaves it as it is, and the first message the milestone appends is the one of its
  sequence check. The index starts at 0: in the phase with the markers \<^verbatim>\<open>M1\<close>, \<^verbatim>\<open>M1\<close>,
  \<^verbatim>\<open>M3\<close> the first is accepted, the second gets the sequence message, and \<^verbatim>\<open>M3\<close> gets
  none.
\<close>

theorem milestone_running_index:
  "(validate_milestone pid (prev, errors) (JObj m) = Inr (prev', errors') \<longrightarrow>
      (let mid = dict_get m ''milestone_id'' (JStr (py_str pid @ '':milestone''))
       in prev' = (case extract_index (py_str mid) ''M'' of
                     None \<Rightarrow> prev
                   | Some i \<Rightarrow> if prev < i then i else prev)
          \<and> (\<exists>rest. errors' = errors
                @ (case extract_index (py_str mid) ''M'' of
                     None \<Rightarrow> [py_str pid @ '': '' @ py_str mid @ '': missing milestone sequence marker'']
                   | Some i \<Rightarrow>
                       if prev < i then []
                       else [py_str pid @ '': '' @ py_str mid @ '': milestone sequence is not strict''])
                @ rest)))
   \<and> validate (JObj [(''phases'', JList [JObj [(''phase_id'', JStr ''P1''),
         (''milestones'', JList [JObj [(''milestone_id'', JStr ''M1'')],
                                 JObj [(''milestone_id'', JStr ''M1'')],
                                 JObj [(''milestone_id'', JStr ''M3'')]])]])])
       = Inr [''phase_count=1 < 7'', ''P1: missing waves[]'', ''P1: milestone_count=3 != 4'',
              ''P1: M1: missing tasks[]'',
              ''P1: M1: milestone sequence is not strict'', ''P1: M1: missing tasks[]'',
              ''P1: M3: missing tasks[]'',
              ''P1: missing phase_gates.phase_end_e2e'']"
proof (intro conjI impI)
  assume a: "validate_milestone pid (prev, errors) (JObj m) = Inr (prev', errors')"
  define mid where "mid = dict_get m ''milestone_id'' (JStr (py_str pid @ '':milestone''))"
  from validate_milestone_sequence_first [OF a]
  obtain rest where r: "prev' = fst (check_milestone_sequence pid mid (prev, []))"
    "errors' = errors @ snd (check_milestone_sequence pid mid (prev, [])) @ rest"
    unfolding mid_def by blast
  have "prev' = (case extract_index (py_str mid) ''M'' of
                     None \<Rightarrow> prev
                   | Some i \<Rightarrow> if prev < i then i else prev)"
    by (simp add: r(1) check_milestone_sequence_def split: option.splits)
  moreover have "errors' = errors
                @ (case extract_index (py_str mid) ''M'' of
                     None \<Rightarrow> [py_str pid @ '': '' @ py_str mid @ '': missing milestone sequence marker'']
                   | Some i \<Rightarrow>
                       if prev < i then []
                       else [py_str pid @ '': '' @ py_str mid @ '': milestone sequence is not strict''])
                @ rest"
    by (simp add: r(2) check_milestone_sequence_def err_def split: option.splits)
  ultimately show "let mid = dict_get m ''milestone_id'' (JStr (py_str pid @ '':milestone''))
       in prev' = (case extract_index (py_str mid) ''M'' of
                     None \<Rightarrow> prev
                   | Some i \<Rightarrow> if prev < i then i else prev)
          \<and> (\<exists>rest. errors' = errors
                @ (case extract_index (py_str mid) ''M'' of
                     None \<Rightarrow> [py_str pid @ '': '' @ py_str mid @ '': missing milestone sequence marker'']
                   | Some i \<Rightarrow>
                       if prev < i then []
                       else [py_str pid @ '': '' @ py_str mid @ '': milestone sequence is not strict''])
                @ rest)"
    unfolding Let_def mid_def [symmetric] by blast
next
  show "validate (JObj [(''phases'', JList [JObj [(''phase_id'', JStr ''P1''),
         (''milestones'', JList [JObj [(''milestone_id'', JStr ''M1'')],
                                 JObj [(''milestone_id'', JStr ''M1'')],
                                 JObj [(''milestone_id'', JStr ''M3'')]])]])])
       = Inr [''phase_count=1 < 7'', ''P1: missing waves[]'', ''P1: milestone_count=3 != 4'',
              ''P1: M1: missing tasks[]'',
              ''P1: M1: milestone sequence is not strict'', ''P1: M1: missing tasks[]'',
              ''P1: M3: missing tasks[]'',
              ''P1: missing phase_gates.phase_end_e2e'']"
    by code_simp
qed

theorem milestone_running_index_witness:
  "validate_milestone (JStr ''P1'') (1, []) (JObj [(''milestone_id'', JStr ''M1'')])
     = Inr (1, [''P1: M1: milestone sequence is not strict'', ''P1: M1: missing tasks[]''])
   \<and> (1::int) = (case extract_index ''M1'' ''M'' of None \<Rightarrow> 1 | Some i \<Rightarrow> if 1 < i then i else 1)
   \<and> extract_index ''M1'' ''M'' = Some 1"
proof -
  have v: "validate_milestone (JStr ''P1'') (1, []) (JObj [(''milestone_id'', JStr ''M1'')])
     = Inr (1, [''P1: M1: milestone sequence is not strict'', ''P1: M1: missing tasks[]''])"
    by code_simp
  have d: "dict_get [(''milestone_id'', JStr ''M1'')] ''milestone_id'' (JStr (py_str (JStr ''P1'') @ '':milestone''))
             = JStr ''M1''"
    by (simp add: dict_get_def)
  have "(1::int) = (case extract_index ''M1'' ''M'' of None \<Rightarrow> 1 | Some i \<Rightarrow> if 1 < i then i else 1)"
    using v milestone_running_index [of "JStr ''P1''" 1 "[]" "[(''milestone_id'', JStr ''M1'')]" 1
        "[''P1: M1: milestone sequence is not strict'', ''P1: M1: missing tasks[]'']"]
    unfolding Let_def d by (simp del: extract_index.simps)
  with v show ?thesis
    by (simp del: extract_index.simps)
qed



text \<open>
  C7. The claim: every phase after the first whose \<^verbatim>\<open>phase_gates\<close> is a mapping or is
  absent gets a message for each rolling gate it lacks. When \<^verbatim>\<open>milestones\<close> of the
  phase is missing or not a list, the \<^verbatim>\<open>continue\<close> of line 56 ends the phase before its
  gates are looked at: the second phase of \<^verbatim>\<open>{"phases": [{}, {}]}\<close> has no phase gates
  and gets no rolling-gate message.
\<close>

theorem rolling_gates_after_first_phase_counterexample:
  "validate (JObj [(''phases'', JList [JObj [], JObj []])])
     = Inr [''phase_count=2 < 7'', ''phase[1]: missing waves[]'', ''phase[1]: missing milestones[]'',
            ''phase[2]: missing waves[]'', ''phase[2]: missing milestones[]'']
   \<and> as_dict (Some (dict_get [] ''phase_gates'' (JObj []))) = Some []
   \<and> \<not> has_key [] ''rolling_inter_phase_integration''
   \<and> ''phase[2]: missing rolling_inter_phase_integration''
       \<notin> set [''phase_count=2 < 7'', ''phase[1]: missing waves[]'', ''phase[1]: missing milestones[]'',
            ''phase[2]: missing waves[]'', ''phase[2]: missing milestones[]'']"
  by code_simp

text \<open>
  C7, amended. When \<^verbatim>\<open>validate\<close> returns, every phase after the first whose
  \<^verbatim>\<open>milestones\<close> is a list and whose \<^verbatim>\<open>phase_gates\<close> is a mapping or is absent has in
  the result a message for each rolling gate it lacks. The first phase is exempt: its
  result depends on its phase gates only through the presence of \<^verbatim>\<open>phase_end_e2e\<close>, so
  leaving the rolling gates out changes nothing.
\<close>

theorem rolling_gates_after_first_phase:
  "(validate (JObj d) = Inr errs \<and> as_list (map_of d ''phases'') = Some phases
      \<and> i < length phases \<and> 0 < i \<and> phases ! i = JObj p
      \<and> as_list (map_of p ''milestones'') = Some ms
      \<and> as_dict (Some (dict_get p ''phase_gates'' (JObj []))) = Some gates
    \<longrightarrow>
      (let pid = dict_get p ''phase_id'' (JStr (''phase['' @ str_nat (Suc i) @ '']''))
       in (\<not> has_key gates ''rolling_inter_phase_integration'' \<longrightarrow>
             (py_str pid @ '': missing rolling_inter_phase_integration'') \<in> set errs)
          \<and> (\<not> has_key gates ''rolling_cumulative_e2e'' \<longrightarrow>
               (py_str pid @ '': missing rolling_cumulative_e2e'') \<in> set errs)))
   \<and> (has_key gates2 ''phase_end_e2e'' = has_key gates1 ''phase_end_e2e''
        \<and> as_dict (Some (dict_get p1 ''phase_gates'' (JObj []))) = Some gates1
      \<longrightarrow> validate_phase es 1 (JObj (AList.update ''phase_gates'' (JObj gates2) p1))
            = validate_phase es 1 (JObj p1))"
proof (intro conjI impI)
  assume a: "validate (JObj d) = Inr errs \<and> as_list (map_of d ''phases'') = Some phases
      \<and> i < length phases \<and> 0 < i \<and> phases ! i = JObj p
      \<and> as_list (map_of p ''milestones'') = Some ms
      \<and> as_dict (Some (dict_get p ''phase_gates'' (JObj []))) = Some gates"
  define pid where "pid = dict_get p ''phase_id'' (JStr (''phase['' @ str_nat (Suc i) @ '']''))"
  from a have v: "validate (JObj d) = Inr errs" and ph: "as_list (map_of d ''phases'') = Some phases"
    by simp_all
  from v have "validate_phases (check_phase_count phases []) 1 phases = Inr errs"
    by (simp add: validate_def ph)
  from validate_phases_nth [OF this, of i] a
  obtain new where new: "validate_phase [] (Suc i) (JObj p) = Inr new" "set new \<subseteq> set errs"
    by auto
  have g: "set (check_phase_gates pid (Suc i) p []) \<subseteq> set errs"
    using validate_phase_ends_with_gates [OF new(1)] a new(2) unfolding pid_def by blast
  have k: "1 < Suc i" using a by simp
  have "(\<not> has_key gates ''rolling_inter_phase_integration'' \<longrightarrow>
             (py_str pid @ '': missing rolling_inter_phase_integration'') \<in> set errs)
          \<and> (\<not> has_key gates ''rolling_cumulative_e2e'' \<longrightarrow>
               (py_str pid @ '': missing rolling_cumulative_e2e'') \<in> set errs)"
    using check_phase_gates_rolling [OF k, of p gates pid] a g by blast
  then show "let pid = dict_get p ''phase_id'' (JStr (''phase['' @ str_nat (Suc i) @ '']''))
       in (\<not> has_key gates ''rolling_inter_phase_integration'' \<longrightarrow>
             (py_str pid @ '': missing rolling_inter_phase_integration'') \<in> set errs)
          \<and> (\<not> has_key gates ''rolling_cumulative_e2e'' \<longrightarrow>
               (py_str pid @ '': missing rolling_cumulative_e2e'') \<in> set errs)"
    unfolding Let_def pid_def by simp
next
  assume b: "has_key gates2 ''phase_end_e2e'' = has_key gates1 ''phase_end_e2e''
        \<and> as_dict (Some (dict_get p1 ''phase_gates'' (JObj []))) = Some gates1"
  define p2 where "p2 = AList.update ''phase_gates'' (JObj gates2) p1"
  have m: "map_of p2 = (map_of p1)(''phase_gates'' \<mapsto> JObj gates2)"
    by (simp add: p2_def update_conv')
  have pid: "dict_get p2 ''phase_id'' dflt = dict_get p1 ''phase_id'' dflt" for dflt
    by (simp add: dict_get_def m)
  have w: "check_waves pid p2 es = check_waves pid p1 es" for pid es
    by (simp add: check_waves_def m)
  have g2: "as_dict (Some (dict_get p2 ''phase_gates'' (JObj []))) = Some gates2"
    by (simp add: dict_get_def m)
  have g: "check_phase_gates pid 1 p2 es = check_phase_gates pid 1 p1 es" for pid es
    using b by (simp add: check_phase_gates_def g2 Let_def)
  have ms: "as_list (map_of p2 ''milestones'') = as_list (map_of p1 ''milestones'')"
    by (simp add: m)
  show "validate_phase es 1 (JObj (AList.update ''phase_gates'' (JObj gates2) p1))
            = validate_phase es 1 (JObj p1)"
    unfolding p2_def [symmetric] validate_phase_def json.case pid w g ms ..
qed

theorem rolling_gates_after_first_phase_witness:
  "validate (JObj [(''phases'', JList
       [JObj [(''milestones'', JList []), (''phase_gates'', JObj [(''phase_end_e2e'', JBool True)])],
        JObj [(''milestones'', JList []),
              (''phase_gates'', JObj [(''phase_end_e2e'', JBool True),
                                      (''rolling_cumulative_e2e'', JBool True)])]])])
     = Inr [''phase_count=2 < 7'',
            ''phase[1]: missing waves[]'', ''phase[1]: milestone_count=0 != 4'',
            ''phase[2]: missing waves[]'', ''phase[2]: milestone_count=0 != 4'',
            ''phase[2]: missing rolling_inter_phase_integration'']
   \<and> ''phase[2]: missing rolling_inter_phase_integration''
       \<in> set [''phase_count=2 < 7'',
            ''phase[1]: missing waves[]'', ''phase[1]: milestone_count=0 != 4'',
            ''phase[2]: missing waves[]'', ''phase[2]: milestone_count=0 != 4'',
            ''phase[2]: missing rolling_inter_phase_integration'']
   \<and> validate_phase [] 1
         (JObj (AList.update ''phase_gates'' (JObj [(''phase_end_e2e'', JBool True)])
            [(''milestones'', JList []),
             (''phase_gates'', JObj [(''phase_end_e2e'', JBool True),
                                     (''rolling_inter_phase_integration'', JBool True),
                                     (''rolling_cumulative_e2e'', JBool True)])]))
       = validate_phase [] 1
           (JObj [(''milestones'', JList []),
                  (''phase_gates'', JObj [(''phase_end_e2e'', JBool True),
                                          (''rolling_inter_phase_integration'', JBool True),
                                          (''rolling_cumulative_e2e'', JBool True)])])"
proof -
  define ph1 where "ph1 = JObj [(''milestones'', JList []), (''phase_gates'', JObj [(''phase_end_e2e'', JBool True)])]"
  define p where "p = [(''milestones'', JList []),
              (''phase_gates'', JObj [(''phase_end_e2e'', JBool True),
                                      (''rolling_cumulative_e2e'', JBool True)])]"
  define errs where "errs = [''phase_count=2 < 7'',
            ''phase[1]: missing waves[]'', ''phase[1]: milestone_count=0 != 4'',
            ''phase[2]: missing waves[]'', ''phase[2]: milestone_count=0 != 4'',
            ''phase[2]: missing rolling_inter_phase_integration'']"
  define p1 where "p1 = [(''milestones'', JList []),
             (''phase_gates'', JObj [(''phase_end_e2e'', JBool True),
                                     (''rolling_inter_phase_integration'', JBool True),
                                     (''rolling_cumulative_e2e'', JBool True)])]"
  have v: "validate (JObj [(''phases'', JList [ph1, JObj p])]) = Inr errs"
    unfolding ph1_def p_def errs_def by code_simp
  have h: "as_list (map_of [(''phases'', JList [ph1, JObj p])] ''phases'') = Some [ph1, JObj p]
           \<and> 1 < length [ph1, JObj p] \<and> (0::nat) < 1 \<and> [ph1, JObj p] ! 1 = JObj p
           \<and> as_list (map_of p ''milestones'') = Some []
           \<and> as_dict (Some (dict_get p ''phase_gates'' (JObj [])))
               = Some [(''phase_end_e2e'', JBool True), (''rolling_cumulative_e2e'', JBool True)]"
    by (simp add: p_def dict_get_def)
  have k: "\<not> has_key [(''phase_end_e2e'', JBool True), (''rolling_cumulative_e2e'', JBool True)]
               ''rolling_inter_phase_integration''"
    by (simp add: has_key_def)
  have pid: "py_str (dict_get p ''phase_id'' (JStr (''phase['' @ str_nat (Suc 1) @ '']'')))
               = ''phase[2]''"
    by (simp add: p_def dict_get_def str_nat_values numeral_2_eq_2 [symmetric])
  have g: "has_key [(''phase_end_e2e'', JBool True)] ''phase_end_e2e''
             = has_key [(''phase_end_e2e'', JBool True),
                        (''rolling_inter_phase_integration'', JBool True),
                        (''rolling_cumulative_e2e'', JBool True)] ''phase_end_e2e''
           \<and> as_dict (Some (dict_get p1 ''phase_gates'' (JObj [])))
               = Some [(''phase_end_e2e'', JBool True),
                       (''rolling_inter_phase_integration'', JBool True),
                       (''rolling_cumulative_e2e'', JBool True)]"
    by (simp add: has_key_def p1_def dict_get_def)
  note w = rolling_gates_after_first_phase [of "[(''phases'', JList [ph1, JObj p])]" errs
      "[ph1, JObj p]" 1 p "[]" "[(''phase_end_e2e'', JBool True), (''rolling_cumulative_e2e'', JBool True)]"
      "[(''phase_end_e2e'', JBool True)]"
      "[(''phase_end_e2e'', JBool True),
                             (''rolling_inter_phase_integration'', JBool True),
                             (''rolling_cumulative_e2e'', JBool True)]" p1 "[]"]
  have a: "''phase[2]: missing rolling_inter_phase_integration'' \<in> set errs"
    using conjunct1 [OF w] v h k pid unfolding Let_def by simp
  have b: "validate_phase [] 1 (JObj (AList.update ''phase_gates'' (JObj [(''phase_end_e2e'', JBool True)]) p1))
             = validate_phase [] 1 (JObj p1)"
    using conjunct2 [OF w] g by blast
  from v a b show ?thesis
    unfolding ph1_def p_def errs_def p1_def by blast
qed





text \<open>
  C10. A milestone without \<^verbatim>\<open>milestone_id\<close> gets the display identifier
  \<^verbatim>\<open><pid>:milestone\<close>, and that string is what is searched for the marker. In the phase
  \<^verbatim>\<open>P1-M3\<close> such a milestone gets no missing-marker message and moves the running index
  to 3, the digits of the phase identifier: the next milestone, \<^verbatim>\<open>M3\<close>, is reported as
  not strictly increasing, and \<^verbatim>\<open>M4\<close> is accepted.
\<close>

theorem default_milestone_id_is_searched:
  "validate_milestone (JStr ''P1-M3'') (0, []) (JObj [])
     = Inr (3, [''P1-M3: P1-M3:milestone: missing tasks[]''])
   \<and> validate (JObj [(''phases'', JList [JObj [(''phase_id'', JStr ''P1-M3''), (''waves'', JList []),
         (''milestones'', JList [JObj [], JObj [(''milestone_id'', JStr ''M3'')],
                                 JObj [(''milestone_id'', JStr ''M4'')]])]])])
     = Inr [''phase_count=1 < 7'', ''P1-M3: wave_count=0 < 5'',
            ''P1-M3: milestone_count=3 != 4'',
            ''P1-M3: P1-M3:milestone: missing tasks[]'',
            ''P1-M3: M3: milestone sequence is not strict'',
            ''P1-M3: M3: missing tasks[]'', ''P1-M3: M4: missing tasks[]'',
            ''P1-M3: missing phase_gates.phase_end_e2e'']"
  by code_simp

end
